theory Spec2Isabelle
  imports Complex_Main "HOL-Library.Multiset"
begin

section \<open>The native engine, as far as \<open>kicad/pcbnew/board.py\<close> uses it\<close>

text \<open>
  \<open>board.py\<close> wraps a native \<open>pcbnew.BOARD\<close> object and calls its methods. The engine is
  an external collaborator; its state is modelled here by the containers and settings
  that the wrapper reads and writes. Python's unbounded integers are \<open>int\<close>; values in
  millimetres, which Python holds as floats, are idealised as exact rationals.
\<close>

type_synonym coord = "rat \<times> rat"

text \<open>
  Modelled from the spec: a native module (footprint) of the engine, "a placed component
  footprint, identified by a unique human-readable reference string". The engine's class
  is not part of the repository; the wrapper reads the reference through the engine.
\<close>

record MODULE =
  GetReference :: string
  GetPosition :: "int \<times> int"

text \<open>
  Modelled from the spec: the native track segment and the native graphic segment that
  the constructors \<open>Track(width, start, end, layer, board)\<close> of \<open>kicad/pcbnew/track.py\<close>
  and \<open>drawing.Segment(start, end, layer, width, board)\<close> of \<open>kicad/pcbnew/drawing.py\<close>
  build; both files are missing from the sources. The records keep the constructor's
  arguments as they are passed, but for the board, which only becomes the parent of the
  native object.
\<close>

record TRACK =
  track_width :: rat
  track_start :: coord
  track_end :: coord
  track_layer :: string

record DRAWSEGMENT =
  seg_start :: coord
  seg_end :: coord
  seg_layer :: string
  seg_width :: rat

text \<open>
  Modelled from the spec: the engine's design settings, "current track width, via size,
  via drill", "in engine-native internal units".
\<close>

record BOARD_DESIGN_SETTINGS =
  GetCurrentTrackWidth :: int
  GetCurrentViaSize :: int
  GetCurrentViaDrill :: int

text \<open>
  Modelled from the spec: the native board, "aggregate root owning zero or more Entities
  (modules, tracks, vias, drawings)", with its design settings and file name. The lists
  are in "the Board's internal placement order".
\<close>

record BOARD =
  GetModules :: "MODULE list"
  GetTracks :: "TRACK list"
  GetDrawings :: "DRAWSEGMENT list"
  GetDesignSettings :: BOARD_DESIGN_SETTINGS
  GetFileName :: string

text \<open>What \<open>BOARD.Add\<close> accepts: a native object of one of the kinds placed here.\<close>

datatype BOARD_ITEM = PCB_MODULE_T MODULE | PCB_TRACE_T TRACK | PCB_LINE_T DRAWSEGMENT

text \<open>
  Modelled from the spec: \<open>BOARD.FindModuleByReference\<close>, the engine's lookup of "the
  matching Module"; it gives no module (Python's \<open>None\<close>) "when no module has that
  reference". The first module in placement order with the reference is the one found.
\<close>

definition FindModuleByReference :: "BOARD \<Rightarrow> string \<Rightarrow> MODULE option" where
  "FindModuleByReference B key = find (\<lambda>m. GetReference m = key) (GetModules B)"

text \<open>
  Modelled from the spec: \<open>BOARD.Add\<close>, "add entity to board". The entity goes to the
  container of its kind, after the entities placed before it: the spec's scenario has
  modules iterated in the order in which they were added.
\<close>

fun Add :: "BOARD_ITEM \<Rightarrow> BOARD \<Rightarrow> BOARD" where
  "Add (PCB_MODULE_T m) B = B\<lparr>GetModules := GetModules B @ [m]\<rparr>"
| "Add (PCB_TRACE_T t) B = B\<lparr>GetTracks := GetTracks B @ [t]\<rparr>"
| "Add (PCB_LINE_T d) B = B\<lparr>GetDrawings := GetDrawings B @ [d]\<rparr>"

text \<open>Modelled from the spec: \<open>pcbnew.BOARD()\<close>, a board "created empty", with the
  engine's initial design settings taken as a parameter.\<close>

definition new_BOARD :: "BOARD_DESIGN_SETTINGS \<Rightarrow> BOARD" where
  "new_BOARD ds =
     \<lparr>GetModules = [], GetTracks = [], GetDrawings = [], GetDesignSettings = ds,
      GetFileName = ''''\<rparr>"

section \<open>The wrappers\<close>

text \<open>
  Modelled from the spec: the wrapper classes \<open>module.Module\<close>, \<open>Track\<close> and
  \<open>drawing.Segment\<close> (missing from the sources), each "an explicit wrapped handle value
  type holding an opaque reference to the external object". \<open>Module.wrap\<close> is the
  constructor \<open>Module\<close>, and the property \<open>reference\<close> reads the native reference.
\<close>

datatype Module = Module (module_obj: MODULE)
datatype Track = Track (track_obj: TRACK)
datatype Segment = Segment (segment_obj: DRAWSEGMENT)

definition reference :: "Module \<Rightarrow> string" where
  "reference m = GetReference (module_obj m)"

definition Track_init :: "rat \<Rightarrow> coord \<Rightarrow> coord \<Rightarrow> string \<Rightarrow> Track" where
  "Track_init width start end layer =
     Track \<lparr>track_width = width, track_start = start, track_end = end, track_layer = layer\<rparr>"

definition Segment_init :: "coord \<Rightarrow> coord \<Rightarrow> string \<Rightarrow> rat \<Rightarrow> Segment" where
  "Segment_init start end layer width =
     Segment \<lparr>seg_start = start, seg_end = end, seg_layer = layer, seg_width = width\<rparr>"

text \<open>The objects that \<open>Board.add\<close> accepts: anything with a \<open>native_obj\<close>.\<close>

datatype board_object = ModuleObj Module | TrackObj Track | SegmentObj Segment

fun native_obj :: "board_object \<Rightarrow> BOARD_ITEM" where
  "native_obj (ModuleObj m) = PCB_MODULE_T (module_obj m)"
| "native_obj (TrackObj t) = PCB_TRACE_T (track_obj t)"
| "native_obj (SegmentObj s) = PCB_LINE_T (segment_obj s)"

section \<open>Errors and Python primitives\<close>

datatype error = KeyError string | IndexError | ZeroDivisionError

text \<open>\<open>float(x) / y\<close>: true division, which raises on a zero divisor.\<close>

definition py_truediv :: "rat \<Rightarrow> rat \<Rightarrow> error + rat" where
  "py_truediv x y = (if y = 0 then Inl ZeroDivisionError else Inr (x / y))"

text \<open>\<open>range(k)\<close> for an integer \<open>k\<close>: empty when \<open>k \<le> 0\<close>.\<close>

definition py_range :: "int \<Rightarrow> nat list" where
  "py_range k = (if k \<le> 0 then [] else [0..<nat k])"

text \<open>\<open>xs[n]\<close> for an index \<open>n \<ge> 0\<close>: out of range raises \<open>IndexError\<close>.\<close>

definition list_getitem :: "'a list \<Rightarrow> nat \<Rightarrow> error + 'a" where
  "list_getitem xs n = (if n < length xs then Inr (xs ! n) else Inl IndexError)"

section \<open>\<open>class Board\<close> and \<open>class _ModuleList\<close>\<close>

text \<open>
  A \<open>Board\<close> holds the native board in \<open>_obj\<close>; its \<open>_modulelist\<close> is a view that only
  holds the board back, so the methods of \<open>_ModuleList\<close> take the board. Each method takes
  the board's state and returns its result with the state after the call; a raised
  exception is \<open>Inl\<close>.
\<close>

record Board =
  board_obj :: BOARD

definition Board_init :: "BOARD_DESIGN_SETTINGS \<Rightarrow> BOARD option \<Rightarrow> Board" where
  "Board_init ds wrap =
     (case wrap of Some w \<Rightarrow> \<lparr>board_obj = w\<rparr> | None \<Rightarrow> \<lparr>board_obj = new_BOARD ds\<rparr>)"

text \<open>\<open>_ModuleList.__getitem__\<close>\<close>

definition getitem :: "string \<Rightarrow> Board \<Rightarrow> (error + Module) \<times> Board" where
  "getitem key b =
     (case FindModuleByReference (board_obj b) key of
        Some found \<Rightarrow> (Inr (Module found), b)
      | None \<Rightarrow> (Inl (KeyError (''No module with reference: '' @ key)), b))"

text \<open>
  \<open>_ModuleList.__iter__\<close> is a generator function: each call makes a new generator,
  suspended in the loop over \<open>GetModules()\<close>. The generator's state is the part of the
  native list not yet visited; \<open>next_module\<close> resumes it (\<open>None\<close> is \<open>StopIteration\<close>), and
  \<open>drain\<close> is one full run, as \<open>list(board.modules)\<close> makes it. The board is not
  changed while a run is under way: the spec leaves that case undefined.
\<close>

datatype ModuleIter = ModuleIter (remaining: "MODULE list")

definition iter_modules :: "Board \<Rightarrow> ModuleIter \<times> Board" where
  "iter_modules b = (ModuleIter (GetModules (board_obj b)), b)"

fun next_module :: "ModuleIter \<Rightarrow> (Module \<times> ModuleIter) option" where
  "next_module (ModuleIter []) = None"
| "next_module (ModuleIter (m # ms)) = Some (Module m, ModuleIter ms)"

function drain :: "ModuleIter \<Rightarrow> Module list" where
  "drain g = (case next_module g of None \<Rightarrow> [] | Some (m, g') \<Rightarrow> m # drain g')"
  by pat_completeness auto
termination
proof (relation "measure (\<lambda>g. length (remaining g))")
  show "wf (measure (\<lambda>g. length (remaining g)))" by simp
next
  fix g :: ModuleIter and x2 :: "Module \<times> ModuleIter" and m g'
  assume "next_module g = Some x2" and "(m, g') = x2"
  then have "next_module g = Some (m, g')" by simp
  then show "(g', g) \<in> measure (\<lambda>g. length (remaining g))"
    by (cases g rule: next_module.cases) auto
qed

declare drain.simps [simp del]

text \<open>\<open>_ModuleList.__len__\<close>\<close>

definition len_modules :: "Board \<Rightarrow> int \<times> Board" where
  "len_modules b = (int (length (GetModules (board_obj b))), b)"

text \<open>\<open>Board.add\<close>\<close>

definition add :: "board_object \<Rightarrow> Board \<Rightarrow> board_object \<times> Board" where
  "add obj b = (obj, b\<lparr>board_obj := Add (native_obj obj) (board_obj b)\<rparr>)"

text \<open>\<open>Board.moduleByRef\<close>: falls off the end, returning \<open>None\<close>, when nothing is found.\<close>

definition moduleByRef :: "string \<Rightarrow> Board \<Rightarrow> Module option \<times> Board" where
  "moduleByRef ref b =
     (case FindModuleByReference (board_obj b) ref of
        Some found \<Rightarrow> (Some (Module found), b)
      | None \<Rightarrow> (None, b))"

text \<open>
  The design-settings properties. \<open>units.DEFAULT_UNIT_IUS\<close>, the number of internal
  units in a millimetre, is defined in \<open>kicad/units.py\<close>, which is missing from the
  sources: it is the parameter \<open>ius\<close>.
\<close>

definition default_width :: "rat \<Rightarrow> Board \<Rightarrow> (error + rat) \<times> Board" where
  "default_width ius b =
     (py_truediv (of_int (GetCurrentTrackWidth (GetDesignSettings (board_obj b)))) ius, b)"

definition default_via_size :: "rat \<Rightarrow> Board \<Rightarrow> (error + rat) \<times> Board" where
  "default_via_size ius b =
     (py_truediv (of_int (GetCurrentViaSize (GetDesignSettings (board_obj b)))) ius, b)"

definition default_via_drill :: "rat \<Rightarrow> Board \<Rightarrow> (error + rat) \<times> Board" where
  "default_via_drill ius b =
     (let via_drill = GetCurrentViaDrill (GetDesignSettings (board_obj b))
      in if via_drill > 0 then (py_truediv (of_int via_drill) ius, b)
         else (Inr (2 / 10), b))"

text \<open>
  \<open>Board.add_track_segment\<close>. Its first argument to \<open>Track\<close> is
  \<open>width or self.default_width\<close>, which reads the default only when \<open>width\<close> is \<open>None\<close>
  or zero.
\<close>

definition width_or_default :: "rat \<Rightarrow> rat option \<Rightarrow> Board \<Rightarrow> (error + rat) \<times> Board" where
  "width_or_default ius width b =
     (case width of
        Some w \<Rightarrow> if w \<noteq> 0 then (Inr w, b) else default_width ius b
      | None \<Rightarrow> default_width ius b)"

definition add_track_segment ::
  "rat \<Rightarrow> coord \<Rightarrow> coord \<Rightarrow> string \<Rightarrow> rat option \<Rightarrow> Board \<Rightarrow> (error + Track) \<times> Board" where
  "add_track_segment ius start end layer width b =
     (case width_or_default ius width b of
        (Inl e, b1) \<Rightarrow> (Inl e, b1)
      | (Inr w, b1) \<Rightarrow>
          (let track = Track_init w start end layer
           in (Inr track, b1\<lparr>board_obj := Add (PCB_TRACE_T (track_obj track)) (board_obj b1)\<rparr>)))"

text \<open>\<open>Board.add_track\<close>: the loop over \<open>range(len(coords) - 1)\<close>.\<close>

fun add_track_loop ::
  "rat \<Rightarrow> coord list \<Rightarrow> string \<Rightarrow> rat option \<Rightarrow> nat list \<Rightarrow> Board \<Rightarrow> (error + unit) \<times> Board" where
  "add_track_loop ius coords layer width [] b = (Inr (), b)"
| "add_track_loop ius coords layer width (n # ns) b =
     (case list_getitem coords n of
        Inl e \<Rightarrow> (Inl e, b)
      | Inr start \<Rightarrow>
          (case list_getitem coords (n + 1) of
             Inl e \<Rightarrow> (Inl e, b)
           | Inr end \<Rightarrow>
               (case add_track_segment ius start end layer width b of
                  (Inl e, b') \<Rightarrow> (Inl e, b')
                | (Inr t, b') \<Rightarrow> add_track_loop ius coords layer width ns b')))"

definition add_track ::
  "rat \<Rightarrow> coord list \<Rightarrow> string \<Rightarrow> rat option \<Rightarrow> Board \<Rightarrow> (error + unit) \<times> Board" where
  "add_track ius coords layer width b =
     add_track_loop ius coords layer width (py_range (int (length coords) - 1)) b"

text \<open>\<open>Board.add_line\<close> and \<open>Board.add_polyline\<close>\<close>

definition add_line ::
  "coord \<Rightarrow> coord \<Rightarrow> string \<Rightarrow> rat \<Rightarrow> Board \<Rightarrow> board_object \<times> Board" where
  "add_line start end layer width b =
     add (SegmentObj (Segment_init start end layer width)) b"

fun add_polyline_loop ::
  "coord list \<Rightarrow> string \<Rightarrow> rat \<Rightarrow> nat list \<Rightarrow> Board \<Rightarrow> (error + unit) \<times> Board" where
  "add_polyline_loop coords layer width [] b = (Inr (), b)"
| "add_polyline_loop coords layer width (n # ns) b =
     (case list_getitem coords n of
        Inl e \<Rightarrow> (Inl e, b)
      | Inr start \<Rightarrow>
          (case list_getitem coords (n + 1) of
             Inl e \<Rightarrow> (Inl e, b)
           | Inr end \<Rightarrow>
               add_polyline_loop coords layer width ns
                 (snd (add_line start end layer width b))))"

definition add_polyline ::
  "coord list \<Rightarrow> string \<Rightarrow> rat \<Rightarrow> Board \<Rightarrow> (error + unit) \<times> Board" where
  "add_polyline coords layer width b =
     add_polyline_loop coords layer width (py_range (int (length coords) - 1)) b"

section \<open>Boards used as concrete inputs\<close>

definition demo_settings :: BOARD_DESIGN_SETTINGS where
  "demo_settings =
     \<lparr>GetCurrentTrackWidth = 250000, GetCurrentViaSize = 600000, GetCurrentViaDrill = 400000\<rparr>"

text \<open>A native board with three modules, two of which carry the reference \<open>J1\<close>.\<close>

definition demo_BOARD :: BOARD where
  "demo_BOARD =
     \<lparr>GetModules =
        [\<lparr>GetReference = ''J1'', GetPosition = (1, 1)\<rparr>,
         \<lparr>GetReference = ''J2'', GetPosition = (2, 2)\<rparr>,
         \<lparr>GetReference = ''J1'', GetPosition = (3, 3)\<rparr>],
      GetTracks = [], GetDrawings = [], GetDesignSettings = demo_settings,
      GetFileName = ''demo.kicad_pcb''\<rparr>"

definition demo_board :: Board where
  "demo_board = Board_init demo_settings (Some demo_BOARD)"

text \<open>A board whose engine reports no via drill (the value 0).\<close>

definition undrilled_board :: Board where
  "undrilled_board = Board_init (demo_settings\<lparr>GetCurrentViaDrill := 0\<rparr>) None"

text \<open>
  Modelled from the spec: a wrapped module that is not on a board yet, with its
  reference and position, as the constructor of \<open>module.Module\<close> (missing from the
  sources) makes it.
\<close>

definition new_module :: "string \<Rightarrow> int \<times> int \<Rightarrow> Module" where
  "new_module ref pos = Module \<lparr>GetReference = ref, GetPosition = pos\<rparr>"

text \<open>
  The scenario of the spec: a new board to which modules with the references \<open>R1\<close>,
  \<open>C1\<close> and \<open>U1\<close> are added, in that order, with \<open>Board.add\<close>.
\<close>

definition scenario_board :: "BOARD_DESIGN_SETTINGS \<Rightarrow> Board" where
  "scenario_board ds =
     (let b0 = Board_init ds None;
          b1 = snd (add (ModuleObj (new_module ''R1'' (10, 10))) b0);
          b2 = snd (add (ModuleObj (new_module ''C1'' (20, 10))) b1);
          b3 = snd (add (ModuleObj (new_module ''U1'' (30, 10))) b2)
      in b3)"

section \<open>The engine's lookup\<close>

lemma FindModuleByReference_None:
  "(FindModuleByReference B key = None) = (key \<notin> GetReference ` set (GetModules B))"
  by (auto simp: FindModuleByReference_def find_None_iff)

lemma FindModuleByReference_Some:
  assumes "FindModuleByReference B key = Some m"
  shows "GetReference m = key" and "m \<in> set (GetModules B)"
  using assms by (auto simp: FindModuleByReference_def find_Some_iff)

section \<open>Keyed lookup\<close>

text \<open>
  C1. For every reference string \<open>R\<close> that no module on the board has, the keyed lookup
  \<open>_ModuleList.__getitem__\<close> raises \<open>KeyError\<close> (the spec's NotFoundError), with the
  message that the code builds, and returns no value.
\<close>

theorem getitem_absent_raises:
  assumes "R \<notin> GetReference ` set (GetModules (board_obj b))"
  shows "fst (getitem R b) = Inl (KeyError (''No module with reference: '' @ R))"
proof -
  have "FindModuleByReference (board_obj b) R = None"
    using assms by (simp add: FindModuleByReference_None)
  then show ?thesis by (simp add: getitem_def)
qed

theorem getitem_absent_raises_witness:
  "''Q1'' \<notin> GetReference ` set (GetModules (board_obj demo_board)) \<and>
   fst (getitem ''Q1'' demo_board) = Inl (KeyError ''No module with reference: Q1'')"
proof -
  have h: "''Q1'' \<notin> GetReference ` set (GetModules (board_obj demo_board))"
    by (simp add: demo_board_def demo_BOARD_def Board_init_def)
  show ?thesis using h getitem_absent_raises [OF h] by simp
qed

text \<open>
  C2. For every reference string \<open>R\<close> of a module that is on the board, the keyed lookup
  returns a wrapped module whose reference is \<open>R\<close>; the module it wraps is one of the
  board's.
\<close>

theorem getitem_present_returns:
  assumes "R \<in> GetReference ` set (GetModules (board_obj b))"
  shows "\<exists>m. fst (getitem R b) = Inr m \<and> reference m = R \<and>
             module_obj m \<in> set (GetModules (board_obj b))"
proof -
  from assms have "FindModuleByReference (board_obj b) R \<noteq> None"
    by (simp add: FindModuleByReference_None)
  then obtain found where f: "FindModuleByReference (board_obj b) R = Some found"
    by blast
  have "fst (getitem R b) = Inr (Module found)"
    by (simp add: getitem_def f)
  moreover have "reference (Module found) = R"
    using FindModuleByReference_Some(1) [OF f] by (simp add: reference_def)
  moreover have "module_obj (Module found) \<in> set (GetModules (board_obj b))"
    using FindModuleByReference_Some(2) [OF f] by simp
  ultimately show ?thesis by blast
qed

theorem getitem_present_returns_witness:
  "''J1'' \<in> GetReference ` set (GetModules (board_obj demo_board)) \<and>
   (\<exists>m. fst (getitem ''J1'' demo_board) = Inr m \<and> reference m = ''J1'' \<and>
        module_obj m \<in> set (GetModules (board_obj demo_board)))"
proof -
  have h: "''J1'' \<in> GetReference ` set (GetModules (board_obj demo_board))"
    by (simp add: demo_board_def demo_BOARD_def Board_init_def)
  show ?thesis using h getitem_present_returns [OF h] by blast
qed

text \<open>
  C7. The keyed lookup has no side effect: for every reference string and every board,
  the board's state after the call (modules, tracks, drawings, design settings) is the
  state before it, whether a module is returned or \<open>KeyError\<close> is raised.
\<close>

theorem getitem_no_side_effect: "snd (getitem R b) = b"
  by (simp add: getitem_def split: option.split)

section \<open>Iteration and size\<close>

lemma drain_ModuleIter: "drain (ModuleIter ms) = map Module ms"
  by (induction ms) (simp_all add: drain.simps [of "ModuleIter _"])

lemma drain_iter_modules:
  "drain (fst (iter_modules b)) = map Module (GetModules (board_obj b))"
  by (simp add: iter_modules_def drain_ModuleIter)

text \<open>
  C3. For every board state, \<open>__len__\<close> returns the number of elements that one full run
  of \<open>__iter__\<close> yields on that state, and leaves the state as it is. Nothing is cached:
  after an object has been added, the size is again the count of a run on the new state.
\<close>

theorem len_equals_iterate_count:
  "fst (len_modules b) = int (length (drain (fst (iter_modules b)))) \<and>
   snd (len_modules b) = b \<and>
   fst (len_modules (snd (add obj b))) =
     int (length (drain (fst (iter_modules (snd (add obj b))))))"
  by (simp add: len_modules_def drain_iter_modules)

text \<open>
  C4. On a board with no module, a run of \<open>__iter__\<close> yields nothing (the first
  \<open>next\<close> already stops) and \<open>__len__\<close> returns 0.
\<close>

theorem empty_board_iterates_nothing:
  assumes "GetModules (board_obj b) = []"
  shows "drain (fst (iter_modules b)) = [] \<and> next_module (fst (iter_modules b)) = None \<and>
         fst (len_modules b) = 0"
  using assms by (simp add: drain_ModuleIter len_modules_def iter_modules_def)

theorem empty_board_iterates_nothing_witness:
  "GetModules (board_obj (Board_init demo_settings None)) = [] \<and>
   drain (fst (iter_modules (Board_init demo_settings None))) = [] \<and>
   next_module (fst (iter_modules (Board_init demo_settings None))) = None \<and>
   fst (len_modules (Board_init demo_settings None)) = 0"
proof -
  have h: "GetModules (board_obj (Board_init demo_settings None)) = []"
    by (simp add: Board_init_def new_BOARD_def)
  show ?thesis using h empty_board_iterates_nothing [OF h] by simp
qed

text \<open>
  C5. A call of \<open>__iter__\<close> leaves the board as it is, and a second full run, started
  by a new call on the board that the first left, yields the same modules in the same
  order. Every run ends (\<open>drain\<close> is a total function), and what it yields is the
  board's modules, each wrapped, in the board's placement order.
\<close>

theorem iterate_stable_and_finite:
  "snd (iter_modules b) = b \<and>
   drain (fst (iter_modules (snd (iter_modules b)))) = drain (fst (iter_modules b)) \<and>
   map module_obj (drain (fst (iter_modules b))) = GetModules (board_obj b)"
  by (simp add: drain_iter_modules) (simp add: iter_modules_def comp_def)

text \<open>
  C6. On the board to which modules with the references \<open>R1\<close>, \<open>C1\<close> and \<open>U1\<close> were
  added in that order, a run of \<open>__iter__\<close> yields these modules (not their references)
  in that order, the lookup of \<open>C1\<close> returns the module added second, the lookup of \<open>Q1\<close>
  raises \<open>KeyError\<close>, and the size is 3.
\<close>

theorem scenario_R1_C1_U1:
  "drain (fst (iter_modules (scenario_board ds))) =
     [new_module ''R1'' (10, 10), new_module ''C1'' (20, 10), new_module ''U1'' (30, 10)] \<and>
   map reference (drain (fst (iter_modules (scenario_board ds)))) = [''R1'', ''C1'', ''U1''] \<and>
   fst (getitem ''C1'' (scenario_board ds)) = Inr (new_module ''C1'' (20, 10)) \<and>
   fst (getitem ''Q1'' (scenario_board ds)) = Inl (KeyError ''No module with reference: Q1'') \<and>
   fst (len_modules (scenario_board ds)) = 3"
  by (simp add: drain_iter_modules scenario_board_def Board_init_def new_BOARD_def add_def
      new_module_def reference_def getitem_def FindModuleByReference_def len_modules_def)

section \<open>Design settings\<close>

text \<open>
  C8, as amended. When the unit constant is not zero, the default track width and the
  default via size are the engine's value divided by the constant, for every engine
  state. The default via drill is the engine's value divided by the constant when that
  value is positive, and the fixed 0.2 mm otherwise. None of the three changes the board.
\<close>

theorem design_settings_in_mm:
  assumes "ius \<noteq> 0"
  shows "default_width ius b =
           (Inr (of_int (GetCurrentTrackWidth (GetDesignSettings (board_obj b))) / ius), b) \<and>
         default_via_size ius b =
           (Inr (of_int (GetCurrentViaSize (GetDesignSettings (board_obj b))) / ius), b) \<and>
         default_via_drill ius b =
           (Inr (if GetCurrentViaDrill (GetDesignSettings (board_obj b)) > 0
                 then of_int (GetCurrentViaDrill (GetDesignSettings (board_obj b))) / ius
                 else 2 / 10), b)"
  using assms
  by (simp add: default_width_def default_via_size_def default_via_drill_def
      py_truediv_def Let_def)

theorem design_settings_in_mm_witness:
  "(1000000 :: rat) \<noteq> 0 \<and>
   default_width 1000000 demo_board = (Inr (1 / 4), demo_board) \<and>
   default_via_size 1000000 demo_board = (Inr (3 / 5), demo_board) \<and>
   default_via_drill 1000000 demo_board = (Inr (2 / 5), demo_board) \<and>
   default_via_drill 1000000 undrilled_board = (Inr (1 / 5), undrilled_board)"
proof -
  have h: "(1000000 :: rat) \<noteq> 0" by simp
  show ?thesis
    using h design_settings_in_mm [OF h, of demo_board]
      design_settings_in_mm [OF h, of undrilled_board]
    by (simp add: demo_board_def demo_BOARD_def demo_settings_def undrilled_board_def
        Board_init_def new_BOARD_def)
qed

text \<open>
  C8 as the spec states it fails for the via drill: on a board whose engine reports the
  via drill 0, with a million internal units in a millimetre, the property returns 0.2
  and not 0 divided by the constant.
\<close>

theorem default_via_drill_counterexample:
  "fst (default_via_drill 1000000 undrilled_board) \<noteq>
   Inr (of_int (GetCurrentViaDrill (GetDesignSettings (board_obj undrilled_board))) / 1000000)"
  by (simp add: default_via_drill_def undrilled_board_def Board_init_def new_BOARD_def
      demo_settings_def)

section \<open>The second lookup\<close>

text \<open>
  C9. \<open>Board.moduleByRef\<close> returns \<open>None\<close>, and raises nothing, when no module on the
  board has the reference, where the keyed lookup raises; when a module has it, it
  returns a wrapped module with that reference, the one the keyed lookup returns. The
  board is left as it is.
\<close>

theorem moduleByRef_None_or_module:
  "(R \<notin> GetReference ` set (GetModules (board_obj b)) \<longrightarrow>
      moduleByRef R b = (None, b) \<and> (\<exists>e. fst (getitem R b) = Inl e)) \<and>
   (R \<in> GetReference ` set (GetModules (board_obj b)) \<longrightarrow>
      (\<exists>m. moduleByRef R b = (Some m, b) \<and> reference m = R \<and> fst (getitem R b) = Inr m))"
proof (cases "FindModuleByReference (board_obj b) R")
  case None
  then show ?thesis
    by (simp add: moduleByRef_def getitem_def FindModuleByReference_None [symmetric])
next
  case (Some found)
  then have "R \<in> GetReference ` set (GetModules (board_obj b))"
    using FindModuleByReference_None [of "board_obj b" R] by simp
  moreover have "reference (Module found) = R"
    using FindModuleByReference_Some(1) [OF Some] by (simp add: reference_def)
  ultimately show ?thesis
    by (simp add: moduleByRef_def getitem_def Some)
qed

theorem moduleByRef_None_or_module_witness:
  "''Q1'' \<notin> GetReference ` set (GetModules (board_obj demo_board)) \<and>
   moduleByRef ''Q1'' demo_board = (None, demo_board) \<and>
   ''J2'' \<in> GetReference ` set (GetModules (board_obj demo_board)) \<and>
   (\<exists>m. moduleByRef ''J2'' demo_board = (Some m, demo_board) \<and> reference m = ''J2'')"
proof -
  have h1: "''Q1'' \<notin> GetReference ` set (GetModules (board_obj demo_board))"
    by (simp add: demo_board_def demo_BOARD_def Board_init_def)
  have h2: "''J2'' \<in> GetReference ` set (GetModules (board_obj demo_board))"
    by (simp add: demo_board_def demo_BOARD_def Board_init_def)
  show ?thesis
    using h1 h2 moduleByRef_None_or_module [of "''Q1''" demo_board]
      moduleByRef_None_or_module [of "''J2''" demo_board]
    by blast
qed

section \<open>Polylines\<close>

lemma py_range_pred_length: "py_range (int n - 1) = [0..<n - 1]"
  by (cases n) (simp_all add: py_range_def)

lemma width_or_default_state: "snd (width_or_default ius width b) = b"
  by (simp add: width_or_default_def default_width_def split: option.split)

lemma width_or_default_settings:
  assumes "GetDesignSettings (board_obj b') = GetDesignSettings (board_obj b)"
  shows "fst (width_or_default ius width b') = fst (width_or_default ius width b)"
  using assms by (simp add: width_or_default_def default_width_def split: option.split)

lemma width_or_default_succeeds:
  assumes "ius \<noteq> 0 \<or> (\<exists>w. width = Some w \<and> w \<noteq> 0)"
  shows "\<exists>w. fst (width_or_default ius width b) = Inr w"
  using assms
  by (auto simp: width_or_default_def default_width_def py_truediv_def split: option.split)

lemma add_track_segment_ok:
  assumes "fst (width_or_default ius width b) = Inr w"
  shows "add_track_segment ius start end layer width b =
           (Inr (Track_init w start end layer),
            b\<lparr>board_obj := (board_obj b)\<lparr>GetTracks :=
                 GetTracks (board_obj b) @ [track_obj (Track_init w start end layer)]\<rparr>\<rparr>)"
proof -
  have "width_or_default ius width b = (Inr w, b)"
    using assms width_or_default_state [of ius width b] by (metis prod.collapse)
  then show ?thesis by (simp add: add_track_segment_def Let_def)
qed

lemma add_track_loop_ok:
  assumes "\<forall>n \<in> set ns. n + 1 < length coords"
    and "fst (width_or_default ius width b) = Inr w"
  shows "add_track_loop ius coords layer width ns b =
           (Inr (),
            b\<lparr>board_obj := (board_obj b)\<lparr>GetTracks := GetTracks (board_obj b) @
                 map (\<lambda>n. track_obj (Track_init w (coords ! n) (coords ! (n + 1)) layer)) ns\<rparr>\<rparr>)"
  using assms
proof (induction ns arbitrary: b)
  case Nil
  then show ?case by simp
next
  case (Cons n ns)
  let ?b1 = "b\<lparr>board_obj := (board_obj b)\<lparr>GetTracks := GetTracks (board_obj b) @
                 [track_obj (Track_init w (coords ! n) (coords ! Suc n) layer)]\<rparr>\<rparr>"
  have seg: "add_track_segment ius (coords ! n) (coords ! Suc n) layer width b =
               (Inr (Track_init w (coords ! n) (coords ! Suc n) layer), ?b1)"
    by (rule add_track_segment_ok [OF Cons.prems(2)])
  have w1: "fst (width_or_default ius width ?b1) = Inr w"
    using Cons.prems(2) width_or_default_settings [of ?b1 b ius width] by simp
  have rest: "\<forall>n \<in> set ns. n + 1 < length coords"
    using Cons.prems(1) by simp
  have inr: "n < length coords" "n + 1 < length coords"
    using Cons.prems(1) by simp_all
  show ?case
    using Cons.IH [OF rest w1] inr
    by (simp add: list_getitem_def seg)
qed

lemma add_polyline_loop_ok:
  assumes "\<forall>n \<in> set ns. n + 1 < length coords"
  shows "add_polyline_loop coords layer width ns b =
           (Inr (),
            b\<lparr>board_obj := (board_obj b)\<lparr>GetDrawings := GetDrawings (board_obj b) @
                 map (\<lambda>n. segment_obj (Segment_init (coords ! n) (coords ! (n + 1)) layer width)) ns\<rparr>\<rparr>)"
  using assms
proof (induction ns arbitrary: b)
  case Nil
  then show ?case by simp
next
  case (Cons n ns)
  have rest: "\<forall>n \<in> set ns. n + 1 < length coords"
    using Cons.prems by simp
  have inr: "n < length coords" "n + 1 < length coords"
    using Cons.prems by simp_all
  show ?case
    using inr by (simp add: list_getitem_def Cons.IH [OF rest] add_line_def add_def)
qed

text \<open>
  Without a usable width and with a unit constant of zero, the first segment already
  raises, and nothing is added: the reason for the condition on the constant below.
\<close>

lemma add_track_zero_unit:
  "add_track 0 [(0, 0), (1, 1)] ''F.Cu'' None demo_board = (Inl ZeroDivisionError, demo_board)"
  by (simp add: add_track_def py_range_def list_getitem_def add_track_segment_def
      width_or_default_def default_width_def py_truediv_def upt_rec)

text \<open>
  C10. For a coordinate list with fewer than two elements, \<open>Board.add_track\<close> and
  \<open>Board.add_polyline\<close> return with the board as it was. For a list of \<open>n \<ge> 2\<close>
  coordinates they add exactly \<open>n - 1\<close> segments, the segment from each coordinate to
  the next, and nothing else on the board changes: \<open>add_track\<close> adds track segments of
  the width given by \<open>width or self.default_width\<close> (provided that this expression has a
  value: the unit constant is not zero, or a nonzero width is passed), \<open>add_polyline\<close>
  adds graphic segments.
\<close>

theorem add_track_add_polyline_segments:
  "(length coords < 2 \<longrightarrow>
      add_track ius coords layer width b = (Inr (), b) \<and>
      add_polyline coords layer' width' b = (Inr (), b)) \<and>
   (2 \<le> length coords \<and> (ius \<noteq> 0 \<or> (\<exists>w. width = Some w \<and> w \<noteq> 0)) \<longrightarrow>
      (\<exists>w b'. fst (width_or_default ius width b) = Inr w \<and>
         add_track ius coords layer width b = (Inr (), b') \<and>
         mset (GetTracks (board_obj b')) =
           mset (GetTracks (board_obj b)) +
           mset (map (\<lambda>n. \<lparr>track_width = w, track_start = coords ! n,
                            track_end = coords ! (n + 1), track_layer = layer\<rparr>)
                   [0..<length coords - 1]) \<and>
         length (GetTracks (board_obj b')) = length (GetTracks (board_obj b)) + (length coords - 1) \<and>
         GetModules (board_obj b') = GetModules (board_obj b) \<and>
         GetDrawings (board_obj b') = GetDrawings (board_obj b) \<and>
         GetDesignSettings (board_obj b') = GetDesignSettings (board_obj b))) \<and>
   (2 \<le> length coords \<longrightarrow>
      (\<exists>b'. add_polyline coords layer' width' b = (Inr (), b') \<and>
         mset (GetDrawings (board_obj b')) =
           mset (GetDrawings (board_obj b)) +
           mset (map (\<lambda>n. \<lparr>seg_start = coords ! n, seg_end = coords ! (n + 1),
                            seg_layer = layer', seg_width = width'\<rparr>)
                   [0..<length coords - 1]) \<and>
         length (GetDrawings (board_obj b')) =
           length (GetDrawings (board_obj b)) + (length coords - 1) \<and>
         GetModules (board_obj b') = GetModules (board_obj b) \<and>
         GetTracks (board_obj b') = GetTracks (board_obj b) \<and>
         GetDesignSettings (board_obj b') = GetDesignSettings (board_obj b)))"
proof (intro conjI impI)
  assume short: "length coords < 2"
  then have "[0..<length coords - 1] = []" by simp
  then show "add_track ius coords layer width b = (Inr (), b)"
    by (simp add: add_track_def py_range_pred_length)
next
  assume short: "length coords < 2"
  then have "[0..<length coords - 1] = []" by simp
  then show "add_polyline coords layer' width' b = (Inr (), b)"
    by (simp add: add_polyline_def py_range_pred_length)
next
  assume a: "2 \<le> length coords \<and> (ius \<noteq> 0 \<or> (\<exists>w. width = Some w \<and> w \<noteq> 0))"
  then obtain w where w: "fst (width_or_default ius width b) = Inr w"
    using width_or_default_succeeds [of ius width b] by blast
  have idx: "\<forall>n \<in> set [0..<length coords - 1]. n + 1 < length coords"
    by auto
  let ?ts = "map (\<lambda>n. track_obj (Track_init w (coords ! n) (coords ! (n + 1)) layer))
               [0..<length coords - 1]"
  let ?b' = "b\<lparr>board_obj := (board_obj b)\<lparr>GetTracks := GetTracks (board_obj b) @ ?ts\<rparr>\<rparr>"
  have run: "add_track ius coords layer width b = (Inr (), ?b')"
    unfolding add_track_def py_range_pred_length
    by (rule add_track_loop_ok [OF idx w])
  have ts: "?ts = map (\<lambda>n. \<lparr>track_width = w, track_start = coords ! n,
                            track_end = coords ! (n + 1), track_layer = layer\<rparr>)
                   [0..<length coords - 1]"
    by (simp add: Track_init_def)
  have "mset (GetTracks (board_obj ?b')) = mset (GetTracks (board_obj b)) + mset ?ts"
    by simp
  moreover have "length (GetTracks (board_obj ?b')) =
      length (GetTracks (board_obj b)) + (length coords - 1)"
    by simp
  moreover have "GetModules (board_obj ?b') = GetModules (board_obj b)"
    and "GetDrawings (board_obj ?b') = GetDrawings (board_obj b)"
    and "GetDesignSettings (board_obj ?b') = GetDesignSettings (board_obj b)"
    by simp_all
  ultimately show "\<exists>w b'. fst (width_or_default ius width b) = Inr w \<and>
         add_track ius coords layer width b = (Inr (), b') \<and>
         mset (GetTracks (board_obj b')) =
           mset (GetTracks (board_obj b)) +
           mset (map (\<lambda>n. \<lparr>track_width = w, track_start = coords ! n,
                            track_end = coords ! (n + 1), track_layer = layer\<rparr>)
                   [0..<length coords - 1]) \<and>
         length (GetTracks (board_obj b')) = length (GetTracks (board_obj b)) + (length coords - 1) \<and>
         GetModules (board_obj b') = GetModules (board_obj b) \<and>
         GetDrawings (board_obj b') = GetDrawings (board_obj b) \<and>
         GetDesignSettings (board_obj b') = GetDesignSettings (board_obj b)"
    using w run unfolding ts by blast
next
  assume "2 \<le> length coords"
  have idx: "\<forall>n \<in> set [0..<length coords - 1]. n + 1 < length coords"
    by auto
  let ?ds = "map (\<lambda>n. segment_obj (Segment_init (coords ! n) (coords ! (n + 1)) layer' width'))
               [0..<length coords - 1]"
  let ?b' = "b\<lparr>board_obj := (board_obj b)\<lparr>GetDrawings := GetDrawings (board_obj b) @ ?ds\<rparr>\<rparr>"
  have run: "add_polyline coords layer' width' b = (Inr (), ?b')"
    unfolding add_polyline_def py_range_pred_length
    by (rule add_polyline_loop_ok [OF idx])
  have ds: "?ds = map (\<lambda>n. \<lparr>seg_start = coords ! n, seg_end = coords ! (n + 1),
                            seg_layer = layer', seg_width = width'\<rparr>)
                   [0..<length coords - 1]"
    by (simp add: Segment_init_def)
  have "mset (GetDrawings (board_obj ?b')) = mset (GetDrawings (board_obj b)) + mset ?ds"
    by simp
  moreover have "length (GetDrawings (board_obj ?b')) =
      length (GetDrawings (board_obj b)) + (length coords - 1)"
    by simp
  moreover have "GetModules (board_obj ?b') = GetModules (board_obj b)"
    and "GetTracks (board_obj ?b') = GetTracks (board_obj b)"
    and "GetDesignSettings (board_obj ?b') = GetDesignSettings (board_obj b)"
    by simp_all
  ultimately show "\<exists>b'. add_polyline coords layer' width' b = (Inr (), b') \<and>
         mset (GetDrawings (board_obj b')) =
           mset (GetDrawings (board_obj b)) +
           mset (map (\<lambda>n. \<lparr>seg_start = coords ! n, seg_end = coords ! (n + 1),
                            seg_layer = layer', seg_width = width'\<rparr>)
                   [0..<length coords - 1]) \<and>
         length (GetDrawings (board_obj b')) =
           length (GetDrawings (board_obj b)) + (length coords - 1) \<and>
         GetModules (board_obj b') = GetModules (board_obj b) \<and>
         GetTracks (board_obj b') = GetTracks (board_obj b) \<and>
         GetDesignSettings (board_obj b') = GetDesignSettings (board_obj b)"
    using run unfolding ds by blast
qed

theorem add_track_add_polyline_segments_witness:
  "add_track 1000000 [(0, 0)] ''F.Cu'' None demo_board = (Inr (), demo_board) \<and>
   add_polyline [(0, 0)] ''F.SilkS'' (15 / 100) demo_board = (Inr (), demo_board) \<and>
   (\<exists>b'. add_track 1000000 [(0, 0), (1, 0), (1, 1)] ''F.Cu'' None demo_board = (Inr (), b') \<and>
         mset (GetTracks (board_obj b')) =
           {#\<lparr>track_width = 1 / 4, track_start = (0, 0), track_end = (1, 0),
               track_layer = ''F.Cu''\<rparr>,
             \<lparr>track_width = 1 / 4, track_start = (1, 0), track_end = (1, 1),
               track_layer = ''F.Cu''\<rparr>#}) \<and>
   (\<exists>b'. add_polyline [(0, 0), (1, 0), (1, 1)] ''F.SilkS'' (15 / 100) demo_board = (Inr (), b') \<and>
         length (GetDrawings (board_obj b')) = 2)"
proof -
  let ?cs = "[(0, 0), (1, 0), (1, 1)] :: coord list"
  have d: "GetTracks (board_obj demo_board) = []" "GetDrawings (board_obj demo_board) = []"
    "fst (width_or_default 1000000 None demo_board) = Inr (1 / 4)"
    by (simp_all add: demo_board_def demo_BOARD_def demo_settings_def Board_init_def
        width_or_default_def default_width_def py_truediv_def)
  have u: "[0..<Suc (Suc 0)] = [0, Suc 0]"
    by (simp add: upt_rec)
  have short: "add_track 1000000 [(0, 0)] ''F.Cu'' None demo_board = (Inr (), demo_board) \<and>
      add_polyline [(0, 0)] ''F.SilkS'' (15 / 100) demo_board = (Inr (), demo_board)"
    using add_track_add_polyline_segments
            [of "[(0, 0)]" 1000000 "''F.Cu''" None demo_board "''F.SilkS''" "15 / 100"]
    by simp
  note long = add_track_add_polyline_segments
            [of ?cs 1000000 "''F.Cu''" None demo_board "''F.SilkS''" "15 / 100"]
  have h: "2 \<le> length ?cs \<and> ((1000000 :: rat) \<noteq> 0 \<or> (\<exists>w. (None :: rat option) = Some w \<and> w \<noteq> 0))"
    by simp
  from long h obtain w b' where
    w: "fst (width_or_default 1000000 None demo_board) = Inr w" and
    run: "add_track 1000000 ?cs ''F.Cu'' None demo_board = (Inr (), b')" and
    ts: "mset (GetTracks (board_obj b')) =
           mset (GetTracks (board_obj demo_board)) +
           mset (map (\<lambda>n. \<lparr>track_width = w, track_start = ?cs ! n,
                            track_end = ?cs ! (n + 1), track_layer = ''F.Cu''\<rparr>)
                   [0..<length ?cs - 1])"
    by blast
  have "w = 1 / 4" using w d(3) by simp
  with ts have tracks: "mset (GetTracks (board_obj b')) =
           {#\<lparr>track_width = 1 / 4, track_start = (0, 0), track_end = (1, 0),
               track_layer = ''F.Cu''\<rparr>,
             \<lparr>track_width = 1 / 4, track_start = (1, 0), track_end = (1, 1),
               track_layer = ''F.Cu''\<rparr>#}"
    by (simp add: d u)
  from long h obtain b'' where
    run': "add_polyline ?cs ''F.SilkS'' (15 / 100) demo_board = (Inr (), b'')" and
    n: "length (GetDrawings (board_obj b'')) =
           length (GetDrawings (board_obj demo_board)) + (length ?cs - 1)"
    by blast
  from n have "length (GetDrawings (board_obj b'')) = 2"
    by (simp add: d)
  with short run tracks run' show ?thesis by blast
qed

end
